theory Spec2Isabelle
  imports Complex_Main "HOL-Library.Sublist"
begin

section \<open>Conventions\<close>

text \<open>
  A Python \<open>str\<close> is a \<^typ>\<open>string\<close>, one \<^typ>\<open>char\<close> per code point, so that
  \<open>len\<close> is \<^const>\<open>length\<close>; the string operations below are those of Python on
  ASCII text. Python floats are exact rationals: no rounding and no NaN. A dict whose
  keys the code reads by name is a record, with an optional field for a key that may be
  absent. A Python \<open>int\<close> is an \<^typ>\<open>int\<close>, or a \<^typ>\<open>nat\<close> where it cannot be negative.
\<close>

subsection \<open>String operations of Python used by the sources\<close>

text \<open>\<open>str.isspace\<close> for one character.\<close>

definition is_space :: "char \<Rightarrow> bool" where
  "is_space c \<longleftrightarrow> c \<in> set [CHR 0x09, CHR 0x0A, CHR 0x0B, CHR 0x0C, CHR 0x0D,
     CHR 0x1C, CHR 0x1D, CHR 0x1E, CHR 0x1F, CHR 0x20, CHR 0x85, CHR 0xA0]"

text \<open>\<open>s.strip()\<close>\<close>

definition strip :: "string \<Rightarrow> string" where
  "strip s = rev (dropWhile is_space (rev (dropWhile is_space s)))"

text \<open>\<open>s.upper()\<close> on ASCII letters; every other character is kept.\<close>

definition upper_char :: "char \<Rightarrow> char" where
  "upper_char c =
     (case map_of (zip ''abcdefghijklmnopqrstuvwxyz'' ''ABCDEFGHIJKLMNOPQRSTUVWXYZ'') c of
        Some u \<Rightarrow> u
      | None \<Rightarrow> c)"

definition upper :: "string \<Rightarrow> string" where
  "upper s = map upper_char s"

text \<open>\<open>sub in s\<close>\<close>

fun contains :: "string \<Rightarrow> string \<Rightarrow> bool" where
  "contains sub [] = (sub = [])"
| "contains sub (c # cs) = (prefix sub (c # cs) \<or> contains sub cs)"

text \<open>\<open>s.split(sep)\<close> for a separator of one character; \<open>cur\<close> is the piece being read.\<close>

fun split_from :: "char \<Rightarrow> string \<Rightarrow> string \<Rightarrow> string list" where
  "split_from sep cur [] = [cur]"
| "split_from sep cur (c # cs) =
     (if c = sep then cur # split_from sep [] cs else split_from sep (cur @ [c]) cs)"

definition split :: "char \<Rightarrow> string \<Rightarrow> string list" where
  "split sep s = split_from sep [] s"

text \<open>\<open>sep.join(parts)\<close>\<close>

fun join :: "string \<Rightarrow> string list \<Rightarrow> string" where
  "join sep [] = []"
| "join sep [p] = p"
| "join sep (p # q # ps) = p @ sep @ join sep (q # ps)"

text \<open>\<open>str(n)\<close> for a non-negative integer.\<close>

fun str_nat :: "nat \<Rightarrow> string" where
  "str_nat n =
     (if n < 10 then [''0123456789'' ! n]
      else str_nat (n div 10) @ [''0123456789'' ! (n mod 10)])"

declare str_nat.simps [simp del]

text \<open>\<open>xs[:n]\<close>: a negative bound counts from the end.\<close>

definition slice_to :: "'a list \<Rightarrow> int \<Rightarrow> 'a list" where
  "slice_to xs n = (if 0 \<le> n then take (nat n) xs else take (length xs - nat (- n)) xs)"

text \<open>
  \<open>xs.sort(key=f, reverse=True)\<close>: CPython reverses the list, sorts it stably in
  ascending order of the key, and reverses the outcome.
\<close>

definition sort_reverse :: "('a \<Rightarrow> 'k::linorder) \<Rightarrow> 'a list \<Rightarrow> 'a list" where
  "sort_reverse f xs = rev (sort_key f (rev xs))"

section \<open>The vector store: \<open>vector_store.py\<close>\<close>

text \<open>The metadata dict of a chunk, with the keys the vector store reads.\<close>

record chunk_metadata =
  source :: "string option"
  category :: "string option"
  validation :: "string option"
  weight :: "rat option"

text \<open>
  The collection of the index is an external collaborator. Its \<open>query\<close> takes the query
  text, \<open>n_results\<close> and the \<open>where\<close> filter (the category allow-list, if any) and answers
  with parallel lists of ids, documents, metadatas and distances; a row is one position
  of those lists.
\<close>

record query_row =
  row_id :: string
  row_document :: string
  row_metadata :: chunk_metadata
  row_distance :: rat

type_synonym collection = "string \<Rightarrow> int \<Rightarrow> string list option \<Rightarrow> query_row list"

text \<open>An entry of \<open>formatted_results\<close>.\<close>

record search_result =
  doc_id :: string
  content :: string
  metadata :: chunk_metadata
  distance :: rat
  relevance_score :: rat

text \<open>The same dict once \<open>hybrid_search\<close> has stored the key \<open>final_score\<close> in it.\<close>

record ranked_result = search_result +
  final_score :: rat

definition similarity_search ::
  "collection \<Rightarrow> string \<Rightarrow> int \<Rightarrow> string list option \<Rightarrow> search_result list" where
  "similarity_search coll query n_results filter_dict =
     map (\<lambda>row. \<lparr>doc_id = row_id row,
                  content = row_document row,
                  metadata = row_metadata row,
                  distance = row_distance row,
                  relevance_score = 1 - row_distance row\<rparr>)
         (coll query n_results filter_dict)"

text \<open>\<open>result['metadata'].get('weight', 0.1)\<close>\<close>

definition get_weight :: "chunk_metadata \<Rightarrow> rat" where
  "get_weight m = (case weight m of Some w \<Rightarrow> w | None \<Rightarrow> 1 / 10)"

text \<open>The body of the re-ranking loop: the result with its boosted score stored.\<close>

definition boost :: "search_result \<Rightarrow> ranked_result" where
  "boost result =
     \<lparr>doc_id = doc_id result,
      content = content result,
      metadata = metadata result,
      distance = distance result,
      relevance_score = relevance_score result,
      final_score = relevance_score result * (1 + get_weight (metadata result))\<rparr>"

text \<open>
  The filter built from \<open>categories\<close>: none when the argument is \<open>None\<close> or the empty list.
\<close>

definition filter_dict_of :: "string list option \<Rightarrow> string list option" where
  "filter_dict_of categories =
     (case categories of
        None \<Rightarrow> None
      | Some cs \<Rightarrow> if cs = [] then None else Some cs)"

definition hybrid_search ::
  "collection \<Rightarrow> string \<Rightarrow> int \<Rightarrow> string list option \<Rightarrow> ranked_result list" where
  "hybrid_search coll query n_results categories =
     (let filter_dict = filter_dict_of categories;
          results = similarity_search coll query (n_results * 2) filter_dict;
          results = map boost results;
          results = sort_reverse final_score results
      in slice_to results n_results)"

text \<open>The block that \<open>get_context_for_query\<close> formats for the result at position \<open>idx\<close>.\<close>

definition chunk_text :: "nat \<Rightarrow> ranked_result \<Rightarrow> string" where
  "chunk_text idx result =
     (let source = (case source (metadata result) of Some s \<Rightarrow> s | None \<Rightarrow> ''Unknown'');
          category = (case category (metadata result) of Some s \<Rightarrow> s | None \<Rightarrow> ''general'');
          validation = (case validation (metadata result) of Some s \<Rightarrow> s | None \<Rightarrow> ''N/A'')
      in [CHR 0x0A] @ ''[Source '' @ str_nat (idx + 1) @ '': '' @ source
           @ '' | Category: '' @ category @ '' | Validation: '' @ validation @ '']''
           @ [CHR 0x0A] @ content result @ [CHR 0x0A] @ ''---'' @ [CHR 0x0A])"

text \<open>
  The loop over \<open>enumerate(results)\<close>, from position \<open>idx\<close> on, with the parts and the
  character total collected so far; \<open>break\<close> returns the parts as they are.
\<close>

fun context_loop ::
  "int \<Rightarrow> nat \<Rightarrow> ranked_result list \<Rightarrow> string list \<Rightarrow> int \<Rightarrow> string list" where
  "context_loop max_chars idx [] context_parts total_chars = context_parts"
| "context_loop max_chars idx (result # results) context_parts total_chars =
     (let chunk_chars = int (length (chunk_text idx result))
      in if total_chars + chunk_chars > max_chars then context_parts
         else context_loop max_chars (idx + 1) results
                (context_parts @ [chunk_text idx result]) (total_chars + chunk_chars))"

definition get_context_for_query ::
  "collection \<Rightarrow> string \<Rightarrow> int \<Rightarrow> int \<Rightarrow> string \<times> ranked_result list" where
  "get_context_for_query coll query max_tokens n_results =
     (let results = hybrid_search coll query n_results None;
          max_chars = max_tokens * 4;
          context_parts = context_loop max_chars 0 results [] 0;
          formatted_context = join [CHR 0x0A] context_parts
      in (formatted_context, results))"

section \<open>The response parser of the RAG pipeline: \<open>rag_pipeline.py\<close>\<close>

abbreviation nl :: string where
  "nl \<equiv> [CHR 0x0A]"

text \<open>The keys of the dict \<open>sections\<close> that are section names.\<close>

datatype section_name =
  Primary_interpretation | Confidence | Scientific_evidence | Reasoning
  | Alternative_interpretations | Sources_cited

record sections =
  primary_interpretation :: string
  confidence :: string
  scientific_evidence :: string
  reasoning :: string
  alternative_interpretations :: "string list"
  sources_cited :: string

text \<open>The dict that \<open>_parse_llm_response\<close> returns: \<open>sections\<close> with \<open>confidence_score\<close> added.\<close>

record parsed_response = sections +
  confidence_score :: rat

definition initial_sections :: sections where
  "initial_sections =
     \<lparr>primary_interpretation = [],
      confidence = ''Medium - 50%'',
      scientific_evidence = [],
      reasoning = [],
      alternative_interpretations = [],
      sources_cited = []\<rparr>"

text \<open>\<open>sections[name]\<close>: a string for every section but the alternatives, which are a list.\<close>

datatype section_content = Text string | Items "string list"

definition get_section :: "section_name \<Rightarrow> 'a sections_scheme \<Rightarrow> section_content" where
  "get_section name secs =
     (case name of
        Primary_interpretation \<Rightarrow> Text (primary_interpretation secs)
      | Confidence \<Rightarrow> Text (confidence secs)
      | Scientific_evidence \<Rightarrow> Text (scientific_evidence secs)
      | Reasoning \<Rightarrow> Text (reasoning secs)
      | Alternative_interpretations \<Rightarrow> Items (alternative_interpretations secs)
      | Sources_cited \<Rightarrow> Text (sources_cited secs))"

text \<open>\<open>sections[current_section] += text\<close>, for a section that holds a string.\<close>

fun add_text :: "section_name \<Rightarrow> string \<Rightarrow> sections \<Rightarrow> sections" where
  "add_text Primary_interpretation t secs =
     secs\<lparr>primary_interpretation := primary_interpretation secs @ t\<rparr>"
| "add_text Confidence t secs = secs\<lparr>confidence := confidence secs @ t\<rparr>"
| "add_text Scientific_evidence t secs =
     secs\<lparr>scientific_evidence := scientific_evidence secs @ t\<rparr>"
| "add_text Reasoning t secs = secs\<lparr>reasoning := reasoning secs @ t\<rparr>"
| "add_text Alternative_interpretations t secs = secs"
| "add_text Sources_cited t secs = secs\<lparr>sources_cited := sources_cited secs @ t\<rparr>"

text \<open>The header tests of the loop, in the order of the \<open>if\<close>/\<open>elif\<close> chain.\<close>

definition header_of :: "string \<Rightarrow> section_name option" where
  "header_of line_upper =
     (if contains ''PRIMARY INTERPRETATION:'' line_upper then Some Primary_interpretation
      else if contains ''CONFIDENCE LEVEL:'' line_upper \<or> contains ''CONFIDENCE:'' line_upper
        then Some Confidence
      else if contains ''SCIENTIFIC EVIDENCE:'' line_upper then Some Scientific_evidence
      else if contains ''REASONING:'' line_upper then Some Reasoning
      else if contains ''ALTERNATIVE INTERPRETATION'' line_upper
        then Some Alternative_interpretations
      else if contains ''SOURCES CITED:'' line_upper \<or> contains ''SOURCES:'' line_upper
        then Some Sources_cited
      else None)"

text \<open>
  One round of the loop over the lines, on the pair of \<open>sections\<close> and \<open>current_section\<close>.
\<close>

fun parse_line ::
  "sections \<times> section_name option \<Rightarrow> string \<Rightarrow> sections \<times> section_name option" where
  "parse_line (secs, current_section) line =
     (case header_of (upper (strip line)) of
        Some header \<Rightarrow> (secs, Some header)
      | None \<Rightarrow>
          (case current_section of
             None \<Rightarrow> (secs, current_section)
           | Some cur \<Rightarrow>
               if strip line = [] then (secs, current_section)
               else if cur = Alternative_interpretations then
                 (if take 2 (strip line) \<in> set [''1.'', ''2.'', ''3.'', ''4.'', ''5.'']
                  then (secs\<lparr>alternative_interpretations :=
                          alternative_interpretations secs @ [strip (drop 3 (strip line))]\<rparr>,
                        current_section)
                  else (secs, current_section))
               else (add_text cur (strip line @ '' '') secs, current_section)))"

text \<open>The clean-up loop: every string section is stripped.\<close>

definition clean_up :: "sections \<Rightarrow> sections" where
  "clean_up secs =
     secs\<lparr>primary_interpretation := strip (primary_interpretation secs),
          confidence := strip (confidence secs),
          scientific_evidence := strip (scientific_evidence secs),
          reasoning := strip (reasoning secs),
          sources_cited := strip (sources_cited secs)\<rparr>"

text \<open>
  \<open>re.search(r'(\d+)%', s)\<close>: the group of the leftmost match, if any. A match starts at
  a digit whose whole run of digits is followed by \<open>%\<close>.
\<close>

definition is_digit :: "char \<Rightarrow> bool" where
  "is_digit c \<longleftrightarrow> c \<in> set ''0123456789''"

fun re_search_percent :: "string \<Rightarrow> string option" where
  "re_search_percent [] = None"
| "re_search_percent (c # cs) =
     (if takeWhile is_digit (c # cs) \<noteq> []
         \<and> (case dropWhile is_digit (c # cs) of [] \<Rightarrow> False | d # _ \<Rightarrow> d = CHR ''%'')
      then Some (takeWhile is_digit (c # cs))
      else re_search_percent cs)"

text \<open>\<open>int(s)\<close> for a string of decimal digits.\<close>

definition digit_value :: "char \<Rightarrow> nat" where
  "digit_value c =
     (case map_of (zip ''0123456789'' [0, 1, 2, 3, 4, 5, 6, 7, 8, 9]) c of
        Some d \<Rightarrow> d
      | None \<Rightarrow> 0)"

definition int_of_digits :: "string \<Rightarrow> nat" where
  "int_of_digits ds = foldl (\<lambda>n c. 10 * n + digit_value c) 0 ds"

text \<open>
  What the \<open>try\<close> block can raise. The true division of two integers raises
  \<open>OverflowError\<close> when the quotient rounds to a float beyond the largest one, that is
  from \<open>2 ^ 1024 - 2 ^ 970\<close> on. (The limit that some Python versions put on the number
  of digits \<open>int\<close> converts is not modelled.)
\<close>

datatype py_error = ValueError | OverflowError

definition true_div :: "nat \<Rightarrow> nat \<Rightarrow> py_error + rat" where
  "true_div n d =
     (if of_nat n / of_nat d \<ge> (2 ^ 1024 - 2 ^ 970 :: rat) then Inl OverflowError
      else Inr (of_nat n / of_nat d))"

text \<open>The last part of \<open>_parse_llm_response\<close>: the score read off the confidence text.\<close>

definition extract_confidence_score :: "string \<Rightarrow> rat" where
  "extract_confidence_score confidence_text =
     (if contains ''%'' confidence_text then
        (case re_search_percent confidence_text of
           None \<Rightarrow> 1 / 2
         | Some digits \<Rightarrow>
             (case true_div (int_of_digits digits) 100 of
                Inl err \<Rightarrow> 1 / 2
              | Inr score \<Rightarrow> score))
      else if contains ''High'' confidence_text then 85 / 100
      else if contains ''Low'' confidence_text then 35 / 100
      else 1 / 2)"

definition parse_llm_response :: "string \<Rightarrow> parsed_response" where
  "parse_llm_response response_text =
     (let lines = split (CHR 0x0A) response_text;
          secs = clean_up (fst (foldl parse_line (initial_sections, None) lines))
      in \<lparr>primary_interpretation = primary_interpretation secs,
          confidence = confidence secs,
          scientific_evidence = scientific_evidence secs,
          reasoning = reasoning secs,
          alternative_interpretations = alternative_interpretations secs,
          sources_cited = sources_cited secs,
          confidence_score = extract_confidence_score (confidence secs)\<rparr>)"

section \<open>The RAG orchestrator: \<open>rag_pipeline.py\<close>\<close>

text \<open>
  The generation capability is external. A call takes the state of the provider and the
  messages, and either fails (\<open>None\<close>, an exception in the source) or answers with the
  text and the provider's next state.
\<close>

datatype message = SystemMessage string | HumanMessage string

type_synonym 'l llm = "'l \<Rightarrow> message list \<Rightarrow> (string \<times> 'l) option"

datatype llm_provider = Anthropic | OpenAI

text \<open>\<open>d.get(key, default)\<close> on a dict of strings, kept as an association list.\<close>

definition dict_get :: "(string \<times> string) list \<Rightarrow> string \<Rightarrow> string \<Rightarrow> string" where
  "dict_get d key dflt = (case map_of d key of Some v \<Rightarrow> v | None \<Rightarrow> dflt)"

definition build_dream_interpretation_prompt ::
  "string \<Rightarrow> string \<Rightarrow> (string \<times> string) list option \<Rightarrow> string" where
  "build_dream_interpretation_prompt dream_text context user_context =
     (let user_info =
            (case user_context of
               None \<Rightarrow> []
             | Some ctx \<Rightarrow>
                 if ctx = [] then []
                 else join nl
                   ['''',
                    ''USER CONTEXT:'',
                    ''- Stress Level: '' @ dict_get ctx ''stress_level'' ''unknown'',
                    ''- Emotional State: '' @ dict_get ctx ''emotional_state'' ''unknown'',
                    ''- Recent Events: '' @ dict_get ctx ''recent_events'' ''none provided'',
                    ''''])
      in join nl
        [''You are an expert dream analyst using evidence-based research to interpret dreams. You have access to scientific literature on dream analysis, including neuroscience studies, content analysis research, and psychological frameworks.'',
         '''',
         ''Your task is to interpret the following dream using ONLY the research context provided. Base your interpretation on scientific evidence and cite sources explicitly.'',
         '''',
         user_info,
         '''',
         ''DREAM DESCRIPTION:'',
         dream_text,
         '''',
         ''RESEARCH CONTEXT:'',
         context,
         '''',
         ''INSTRUCTIONS:'',
         ''1. Analyze the dream symbols and themes present in the dream'',
         ''2. Reference specific research findings from the context'',
         ''3. Provide an evidence-based interpretation citing sources'',
         ''4. Assess confidence level (High: 80-100%, Medium: 50-79%, Low: 20-49%)'',
         ''5. Offer 2-3 alternative interpretations if applicable'',
         ''6. Explain your reasoning process'',
         '''',
         ''REQUIRED OUTPUT FORMAT:'',
         '''',
         ''PRIMARY INTERPRETATION:'',
         ''[Provide main interpretation in 2-3 sentences]'',
         '''',
         ''CONFIDENCE LEVEL:'',
         ''[High/Medium/Low] - [Percentage]%'',
         '''',
         ''SCIENTIFIC EVIDENCE:'',
         ''[Cite specific research and findings from the provided context]'',
         '''',
         ''REASONING:'',
         ''[Explain why this interpretation is most likely based on the research]'',
         '''',
         ''ALTERNATIVE INTERPRETATIONS:'',
         ''1. [Alternative interpretation 1]'',
         ''2. [Alternative interpretation 2]'',
         ''3. [Alternative interpretation 3]'',
         '''',
         ''SOURCES CITED:'',
         ''[List sources from context that supported your interpretation]'',
         '''',
         ''Remember: Only use information from the research context provided. Do not make up sources or cite research not present in the context.''])"

text \<open>An entry of \<open>sources_formatted\<close>.\<close>

record formatted_source =
  fs_source :: string
  fs_category :: string
  fs_relevance :: rat
  fs_excerpt :: string

definition format_source :: "ranked_result \<Rightarrow> formatted_source" where
  "format_source doc =
     \<lparr>fs_source = (case source (metadata doc) of Some s \<Rightarrow> s | None \<Rightarrow> ''Unknown''),
      fs_category = (case category (metadata doc) of Some s \<Rightarrow> s | None \<Rightarrow> ''general''),
      fs_relevance = relevance_score doc,
      fs_excerpt = take 200 (content doc) @ ''...''\<rparr>"

text \<open>\<open>RAGResponse\<close>; the fields carry the prefix \<open>rag\<close>.\<close>

record rag_response =
  rag_interpretation :: string
  rag_confidence_score :: rat
  rag_sources_used :: "formatted_source list"
  rag_reasoning :: string
  rag_alternative_interpretations :: "string list"
  rag_query :: string

text \<open>The messages sent to the provider by \<open>RAGPipeline.interpret_dream\<close>.\<close>

definition rag_messages :: "llm_provider \<Rightarrow> string \<Rightarrow> message list" where
  "rag_messages provider prompt =
     (case provider of
        Anthropic \<Rightarrow> [HumanMessage prompt]
      | OpenAI \<Rightarrow>
          [SystemMessage ''You are an expert dream analyst using evidence-based research.'',
           HumanMessage prompt])"

text \<open>\<open>RAGPipeline.interpret_dream\<close>\<close>

definition rag_interpret_dream ::
  "'l llm \<Rightarrow> llm_provider \<Rightarrow> collection \<Rightarrow> 'l \<Rightarrow> string \<Rightarrow> (string \<times> string) list option
     \<Rightarrow> int \<Rightarrow> (rag_response \<times> 'l) option" where
  "rag_interpret_dream client provider coll l dream_text user_context n_sources =
     (let (context, source_docs) = get_context_for_query coll dream_text 3000 n_sources;
          prompt = build_dream_interpretation_prompt dream_text context user_context
      in case client l (rag_messages provider prompt) of
           None \<Rightarrow> None
         | Some (response_text, l') \<Rightarrow>
             let parsed = parse_llm_response response_text;
                 sources_formatted = map format_source source_docs
             in Some (\<lparr>rag_interpretation = primary_interpretation parsed,
                        rag_confidence_score = confidence_score parsed,
                        rag_sources_used = sources_formatted,
                        rag_reasoning = reasoning parsed,
                        rag_alternative_interpretations = alternative_interpretations parsed,
                        rag_query = dream_text\<rparr>, l'))"

section \<open>The agentic pipeline: \<open>agentic_system.py\<close>\<close>

subsection \<open>More string operations\<close>

text \<open>\<open>s.find(sub)\<close>, searching from position \<open>i\<close> of the original string on.\<close>

fun find_from :: "nat \<Rightarrow> string \<Rightarrow> string \<Rightarrow> int" where
  "find_from i sub [] = (if sub = [] then int i else - 1)"
| "find_from i sub (c # cs) = (if prefix sub (c # cs) then int i else find_from (i + 1) sub cs)"

definition str_find :: "string \<Rightarrow> string \<Rightarrow> int" where
  "str_find s sub = find_from 0 sub s"

text \<open>\<open>s[i:j]\<close>: a negative bound counts from the end.\<close>

definition slice :: "string \<Rightarrow> int \<Rightarrow> int \<Rightarrow> string" where
  "slice s i j =
     (let n = int (length s);
          lo = (if i < 0 then max (n + i) 0 else i);
          hi = (if j < 0 then max (n + j) 0 else j)
      in drop (nat lo) (take (nat hi) s))"

text \<open>\<open>s.replace(old, '')\<close> for a non-empty \<open>old\<close>: its occurrences are cut out from left to right.\<close>

fun remove_all :: "string \<Rightarrow> string \<Rightarrow> string" where
  "remove_all old [] = []"
| "remove_all old (c # cs) =
     (if old \<noteq> [] \<and> prefix old (c # cs) then remove_all old (drop (length old - 1) cs)
      else c # remove_all old cs)"

subsection \<open>State and response\<close>

text \<open>\<open>DreamAnalysisState\<close>; the fields carry the prefix \<open>st\<close>.\<close>

record dream_analysis_state =
  st_dream_text :: string
  st_user_context :: "(string \<times> string) list"
  st_dream_symbols :: "string list"
  st_research_context :: string
  st_retrieved_sources :: "ranked_result list"
  st_symbol_analysis :: string
  st_psychological_analysis :: string
  st_cultural_analysis :: string
  st_final_interpretation :: string
  st_confidence_score :: rat
  st_reasoning :: string
  st_alternative_interpretations :: "string list"
  st_current_step :: string
  st_messages :: "string list"

text \<open>\<open>AgenticResponse\<close>; the fields carry the prefix \<open>agentic\<close>.\<close>

record agentic_response =
  agentic_interpretation :: string
  agentic_confidence_score :: rat
  agentic_symbol_analysis :: string
  agentic_psychological_analysis :: string
  agentic_cultural_analysis :: string
  agentic_reasoning :: string
  agentic_alternative_interpretations :: "string list"
  agentic_sources_used :: "ranked_result list"
  agentic_trace :: "string list"

subsection \<open>Agent 1: symbol extraction\<close>

definition extract_symbols_messages :: "dream_analysis_state \<Rightarrow> message list" where
  \<open>extract_symbols_messages state =
     [SystemMessage ''You are a dream symbol extraction expert.'',
      HumanMessage (join nl
        [''Analyze this dream and extract the key symbols, themes, and elements.'',
         '''',
         ''Dream: '' @ st_dream_text state,
         '''',
         ''List the most important symbols (5-10) that should be researched. Output as a comma-separated list.'',
         ''Focus on: objects, actions, emotions, people, places, colors, animals.'',
         '''',
         ''Example output: "teeth falling out, workplace, panic, embarrassment, falling"'',
         ''''])]\<close>

fun extract_symbols_agent ::
  "'l llm \<Rightarrow> collection \<Rightarrow> 'l \<times> dream_analysis_state \<Rightarrow> ('l \<times> dream_analysis_state) option"
  where
  "extract_symbols_agent llm coll (l, state) =
     (case llm l (extract_symbols_messages state) of
        None \<Rightarrow> None
      | Some (symbols_text, l') \<Rightarrow>
          let symbols = map strip (split (CHR '','') symbols_text)
          in Some (l', state\<lparr>st_dream_symbols := symbols,
                             st_current_step := ''symbol_extraction'',
                             st_messages := st_messages state
                               @ [''Extracted '' @ str_nat (length symbols) @ '' symbols'']\<rparr>))"

subsection \<open>Agent 2: research retrieval\<close>

fun retrieve_research_agent ::
  "'l llm \<Rightarrow> collection \<Rightarrow> 'l \<times> dream_analysis_state \<Rightarrow> ('l \<times> dream_analysis_state) option"
  where
  "retrieve_research_agent llm coll (l, state) =
     (let search_query = st_dream_text state @ '' '' @ join '' '' (take 5 (st_dream_symbols state));
          (context, sources) = get_context_for_query coll search_query 4000 7
      in Some (l, state\<lparr>st_research_context := context,
                        st_retrieved_sources := sources,
                        st_current_step := ''research_retrieval'',
                        st_messages := st_messages state
                          @ [''Retrieved '' @ str_nat (length sources) @ '' research sources'']\<rparr>))"

subsection \<open>Agent 3: symbol analysis\<close>

definition analyze_symbols_messages :: "dream_analysis_state \<Rightarrow> message list" where
  "analyze_symbols_messages state =
     [SystemMessage ''You are a scientific dream symbol analyst.'',
      HumanMessage (join nl
        [''You are a dream symbol analyst. Analyze the following symbols from a dream using the research context provided.'',
         '''',
         ''Dream: '' @ st_dream_text state,
         ''Symbols: '' @ join '', '' (st_dream_symbols state),
         '''',
         ''Research Context:'',
         take 3000 (st_research_context state),
         '''',
         ''For each major symbol, explain:'',
         ''1. What it represents based on research'',
         ''2. Scientific evidence supporting this interpretation'',
         ''3. Common patterns in dream research'',
         '''',
         ''Be specific and cite sources from the research context.''])]"

fun analyze_symbols_agent ::
  "'l llm \<Rightarrow> collection \<Rightarrow> 'l \<times> dream_analysis_state \<Rightarrow> ('l \<times> dream_analysis_state) option"
  where
  "analyze_symbols_agent llm coll (l, state) =
     (case llm l (analyze_symbols_messages state) of
        None \<Rightarrow> None
      | Some (response, l') \<Rightarrow>
          Some (l', state\<lparr>st_symbol_analysis := response,
                          st_current_step := ''symbol_analysis'',
                          st_messages := st_messages state @ [''Completed symbol analysis'']\<rparr>))"

subsection \<open>Agent 4: psychological analysis\<close>

definition psychological_analysis_messages :: "dream_analysis_state \<Rightarrow> message list" where
  "psychological_analysis_messages state =
     (let ctx = st_user_context state;
          user_context_str =
            (if ctx = [] then []
             else join nl
               ['''',
                ''User Context:'',
                ''- Stress Level: '' @ dict_get ctx ''stress_level'' ''unknown'',
                ''- Emotional State: '' @ dict_get ctx ''emotional_state'' ''unknown'',
                ''- Recent Events: '' @ dict_get ctx ''recent_events'' ''none'',
                ''''])
      in [SystemMessage ''You are a psychological dream analyst with expertise in contemporary dream research.'',
          HumanMessage (join nl
            [''You are a psychological dream analyst. Analyze this dream from psychological perspectives.'',
             '''',
             ''Dream: '' @ st_dream_text state,
             user_context_str,
             '''',
             ''Previous Symbol Analysis:'',
             take 1500 (st_symbol_analysis state),
             '''',
             ''Research Context (focus on psychological studies):'',
             take 2000 (st_research_context state),
             '''',
             ''Analyze from these perspectives:'',
             ''1. Emotional processing and mood regulation'',
             ''2. Memory consolidation and personal experiences'',
             ''3. Threat simulation and evolutionary psychology'',
             ''4. Personal psychological state and stress response'',
             '''',
             ''Connect the dream to the user's current context if provided.''])])"

fun psychological_analysis_agent ::
  "'l llm \<Rightarrow> collection \<Rightarrow> 'l \<times> dream_analysis_state \<Rightarrow> ('l \<times> dream_analysis_state) option"
  where
  "psychological_analysis_agent llm coll (l, state) =
     (case llm l (psychological_analysis_messages state) of
        None \<Rightarrow> None
      | Some (response, l') \<Rightarrow>
          Some (l', state\<lparr>st_psychological_analysis := response,
                          st_current_step := ''psychological_analysis'',
                          st_messages := st_messages state
                            @ [''Completed psychological analysis'']\<rparr>))"

subsection \<open>Agent 5: cultural analysis\<close>

definition cultural_analysis_messages :: "dream_analysis_state \<Rightarrow> message list" where
  "cultural_analysis_messages state =
     [SystemMessage ''You are a cultural dream analyst specializing in cross-cultural dream patterns.'',
      HumanMessage (join nl
        [''You are a cultural dream analyst. Provide cultural and archetypal context for this dream.'',
         '''',
         ''Dream: '' @ st_dream_text state,
         ''Symbols: '' @ join '', '' (st_dream_symbols state),
         '''',
         ''Research Context (focus on cultural studies):'',
         take 2000 (st_research_context state),
         '''',
         ''Analyze:'',
         ''1. Cross-cultural patterns and universal themes'',
         ''2. Archetypal meanings (if supported by research)'',
         ''3. Cultural variations in interpretation'',
         ''4. Traditional vs modern perspectives'',
         '''',
         ''Stay grounded in the research provided.''])]"

fun cultural_analysis_agent ::
  "'l llm \<Rightarrow> collection \<Rightarrow> 'l \<times> dream_analysis_state \<Rightarrow> ('l \<times> dream_analysis_state) option"
  where
  "cultural_analysis_agent llm coll (l, state) =
     (case llm l (cultural_analysis_messages state) of
        None \<Rightarrow> None
      | Some (response, l') \<Rightarrow>
          Some (l', state\<lparr>st_cultural_analysis := response,
                          st_current_step := ''cultural_analysis'',
                          st_messages := st_messages state @ [''Completed cultural analysis'']\<rparr>))"

subsection \<open>Agent 6: synthesis\<close>

definition synthesis_messages :: "dream_analysis_state \<Rightarrow> message list" where
  "synthesis_messages state =
     [SystemMessage ''You are the synthesis agent responsible for creating the final comprehensive dream interpretation.'',
      HumanMessage (join nl
        [''You are the synthesis agent. Combine all previous analyses into a comprehensive, coherent dream interpretation.'',
         '''',
         ''Dream: '' @ st_dream_text state,
         '''',
         ''SYMBOL ANALYSIS:'',
         st_symbol_analysis state,
         '''',
         ''PSYCHOLOGICAL ANALYSIS:'',
         st_psychological_analysis state,
         '''',
         ''CULTURAL ANALYSIS:'',
         st_cultural_analysis state,
         '''',
         ''Create a final interpretation that:'',
         ''1. Integrates insights from all analyses'',
         ''2. Prioritizes scientific evidence over speculation'',
         ''3. Provides actionable insights for the dreamer'',
         ''4. Includes confidence assessment (High/Medium/Low with %)'',
         ''5. Offers 2-3 alternative interpretations'',
         ''6. Explains reasoning clearly'',
         '''',
         ''OUTPUT FORMAT:'',
         '''',
         ''FINAL INTERPRETATION:'',
         ''[2-3 paragraphs integrating all perspectives]'',
         '''',
         ''CONFIDENCE:'',
         ''[High/Medium/Low] - [XX]%'',
         '''',
         ''REASONING:'',
         ''[Explain why this interpretation is most supported]'',
         '''',
         ''ALTERNATIVE INTERPRETATIONS:'',
         ''1. [Alternative 1]'',
         ''2. [Alternative 2]'',
         ''3. [Alternative 3]'',
         '''',
         ''KEY INSIGHTS:'',
         ''[Practical takeaways for the dreamer]'',
         ''''])]"

text \<open>The confidence read off the synthesis text.\<close>

definition synthesis_confidence :: "string \<Rightarrow> rat" where
  "synthesis_confidence synthesis =
     (if contains ''High'' synthesis \<and> contains ''%'' synthesis then 85 / 100
      else if contains ''Low'' synthesis \<and> contains ''%'' synthesis then 4 / 10
      else 7 / 10)"

text \<open>
  One round of the loop that collects the alternatives, on the pair of \<open>alternatives\<close>
  and \<open>in_alternatives\<close>.
\<close>

fun alternatives_line :: "string list \<times> bool \<Rightarrow> string \<Rightarrow> string list \<times> bool" where
  "alternatives_line (alternatives, in_alternatives) line =
     (if contains ''ALTERNATIVE INTERPRETATION'' (upper line) then (alternatives, True)
      else if in_alternatives \<and> strip line \<noteq> []
              \<and> (case strip line of [] \<Rightarrow> False | c # _ \<Rightarrow> c \<in> set ''123456789'')
        then (alternatives @ [drop 3 (strip line)], in_alternatives)
      else (alternatives, in_alternatives))"

definition synthesis_alternatives :: "string \<Rightarrow> string list" where
  "synthesis_alternatives synthesis =
     (let lines = split (CHR 0x0A) synthesis;
          alternatives = fst (foldl alternatives_line ([], False) lines)
      in take 3 alternatives)"

definition synthesis_reasoning :: "string \<Rightarrow> string" where
  "synthesis_reasoning synthesis =
     (let reasoning_start = str_find synthesis ''REASONING:'';
          reasoning_end = str_find synthesis ''ALTERNATIVE INTERPRETATIONS:''
      in if reasoning_start \<noteq> - 1 \<and> reasoning_end \<noteq> - 1
         then strip (remove_all ''REASONING:'' (slice synthesis reasoning_start reasoning_end))
         else ''Synthesized from multiple analytical perspectives'')"

fun synthesis_agent ::
  "'l llm \<Rightarrow> collection \<Rightarrow> 'l \<times> dream_analysis_state \<Rightarrow> ('l \<times> dream_analysis_state) option"
  where
  "synthesis_agent llm coll (l, state) =
     (case llm l (synthesis_messages state) of
        None \<Rightarrow> None
      | Some (synthesis, l') \<Rightarrow>
          Some (l', state\<lparr>st_final_interpretation := synthesis,
                          st_confidence_score := synthesis_confidence synthesis,
                          st_alternative_interpretations := synthesis_alternatives synthesis,
                          st_reasoning := synthesis_reasoning synthesis,
                          st_current_step := ''complete'',
                          st_messages := st_messages state @ [''Synthesis complete'']\<rparr>))"

subsection \<open>The workflow and the orchestrator\<close>

text \<open>
  The compiled graph has one edge out of every node, so invoking it runs the nodes in
  the order of the edges; a node that fails ends the run.
\<close>

type_synonym 'l agent =
  "'l llm \<Rightarrow> collection \<Rightarrow> 'l \<times> dream_analysis_state \<Rightarrow> ('l \<times> dream_analysis_state) option"

definition workflow_nodes :: "'l agent list" where
  "workflow_nodes =
     [extract_symbols_agent, retrieve_research_agent, analyze_symbols_agent,
      psychological_analysis_agent, cultural_analysis_agent, synthesis_agent]"

text \<open>The nodes before the synthesis.\<close>

definition analysis_nodes :: "'l agent list" where
  "analysis_nodes =
     [extract_symbols_agent, retrieve_research_agent, analyze_symbols_agent,
      psychological_analysis_agent, cultural_analysis_agent]"

fun run_nodes ::
  "'l agent list \<Rightarrow> 'l llm \<Rightarrow> collection \<Rightarrow> 'l \<times> dream_analysis_state
     \<Rightarrow> ('l \<times> dream_analysis_state) option" where
  "run_nodes [] llm coll x = Some x"
| "run_nodes (node # nodes) llm coll x =
     (case node llm coll x of None \<Rightarrow> None | Some y \<Rightarrow> run_nodes nodes llm coll y)"

definition workflow_invoke ::
  "'l llm \<Rightarrow> collection \<Rightarrow> 'l \<times> dream_analysis_state \<Rightarrow> ('l \<times> dream_analysis_state) option"
  where
  "workflow_invoke llm coll x = run_nodes workflow_nodes llm coll x"

definition initial_state :: "string \<Rightarrow> (string \<times> string) list option \<Rightarrow> dream_analysis_state"
  where
  "initial_state dream_text user_context =
     \<lparr>st_dream_text = dream_text,
      st_user_context = (case user_context of None \<Rightarrow> [] | Some ctx \<Rightarrow> ctx),
      st_dream_symbols = [],
      st_research_context = [],
      st_retrieved_sources = [],
      st_symbol_analysis = [],
      st_psychological_analysis = [],
      st_cultural_analysis = [],
      st_final_interpretation = [],
      st_confidence_score = 0,
      st_reasoning = [],
      st_alternative_interpretations = [],
      st_current_step = ''start'',
      st_messages = []\<rparr>"

text \<open>\<open>DreamInterpreterAgents.interpret_dream\<close>\<close>

definition agentic_interpret_dream ::
  "'l llm \<Rightarrow> collection \<Rightarrow> 'l \<Rightarrow> string \<Rightarrow> (string \<times> string) list option
     \<Rightarrow> (agentic_response \<times> 'l) option" where
  "agentic_interpret_dream llm coll l dream_text user_context =
     (case workflow_invoke llm coll (l, initial_state dream_text user_context) of
        None \<Rightarrow> None
      | Some (l', final_state) \<Rightarrow>
          Some (\<lparr>agentic_interpretation = st_final_interpretation final_state,
                 agentic_confidence_score = st_confidence_score final_state,
                 agentic_symbol_analysis = st_symbol_analysis final_state,
                 agentic_psychological_analysis = st_psychological_analysis final_state,
                 agentic_cultural_analysis = st_cultural_analysis final_state,
                 agentic_reasoning = st_reasoning final_state,
                 agentic_alternative_interpretations = st_alternative_interpretations final_state,
                 agentic_sources_used = st_retrieved_sources final_state,
                 agentic_trace = st_messages final_state\<rparr>, l'))"

section \<open>Concrete inputs\<close>

text \<open>A provider that answers with the texts of a script, one per call, and fails at its end.\<close>

fun scripted :: "string list llm" where
  "scripted [] messages = None"
| "scripted (text # script) messages = Some (text, script)"

definition chunk_meta :: "string \<Rightarrow> rat \<Rightarrow> chunk_metadata" where
  "chunk_meta s w =
     \<lparr>source = Some s, category = Some ''c'', validation = Some ''v'', weight = Some w\<rparr>"

text \<open>An index whose two chunks have the same distance and the same weight.\<close>

definition tie_index :: collection where
  "tie_index query n_results filter_dict =
     [\<lparr>row_id = ''T_chunk_0'', row_document = ''ab'',
       row_metadata = chunk_meta ''T'' (1 / 2), row_distance = 1 / 2\<rparr>,
      \<lparr>row_id = ''S_chunk_0'', row_document = ''cd'',
       row_metadata = chunk_meta ''S'' (1 / 2), row_distance = 1 / 2\<rparr>]"

text \<open>An index with a chunk whose distance is above 1.\<close>

definition far_index :: collection where
  "far_index query n_results filter_dict =
     [\<lparr>row_id = ''S_chunk_0'', row_document = ''ab'',
       row_metadata = chunk_meta ''S'' (1 / 5), row_distance = 3 / 2\<rparr>]"

text \<open>An index with two chunks of different weights, the second one by far the closer.\<close>

definition two_index :: collection where
  "two_index query n_results filter_dict =
     [\<lparr>row_id = ''S_chunk_0'', row_document = ''flying dreams'',
       row_metadata = chunk_meta ''S'' (1 / 5), row_distance = 1 / 2\<rparr>,
      \<lparr>row_id = ''T_chunk_3'', row_document = ''falling dreams'',
       row_metadata = chunk_meta ''T'' (4 / 5), row_distance = 1 / 4\<rparr>]"

text \<open>An index whose only chunk is formatted to a block of 80 characters.\<close>

definition long_index :: collection where
  "long_index query n_results filter_dict =
     [\<lparr>row_id = ''S_chunk_0'', row_document = ''Dreams of flying are frequent.'',
       row_metadata = chunk_meta ''S'' (1 / 5), row_distance = 1 / 2\<rparr>]"

definition empty_index :: collection where
  "empty_index query n_results filter_dict = []"

text \<open>The candidates that the searches are expected to return on those indexes.\<close>

definition top_hit :: ranked_result where
  "top_hit =
     \<lparr>doc_id = ''T_chunk_3'', content = ''falling dreams'',
      metadata = chunk_meta ''T'' (4 / 5), distance = 1 / 4, relevance_score = 3 / 4,
      final_score = 27 / 20\<rparr>"

definition near_hit :: search_result where
  "near_hit =
     \<lparr>doc_id = ''S_chunk_0'', content = ''flying dreams'',
      metadata = chunk_meta ''S'' (1 / 5), distance = 1 / 2, relevance_score = 1 / 2\<rparr>"

definition long_hit :: ranked_result where
  "long_hit =
     \<lparr>doc_id = ''S_chunk_0'', content = ''Dreams of flying are frequent.'',
      metadata = chunk_meta ''S'' (1 / 5), distance = 1 / 2, relevance_score = 1 / 2,
      final_score = 3 / 5\<rparr>"

text \<open>The answers of a provider over one agentic run, the last one being the synthesis.\<close>

definition flying_synthesis :: string where
  "flying_synthesis =
     join nl
       [''FINAL INTERPRETATION:'', ''You long for freedom.'', '''',
        ''CONFIDENCE:'', ''High - 92%'', '''',
        ''REASONING:'', ''Flying is a frequent theme.'', '''',
        ''ALTERNATIVE INTERPRETATIONS:'', ''1. a'', ''2. b'', ''3. c'', ''4. d'', '''',
        ''KEY INSIGHTS:'', ''Rest more.'']"

definition flying_script :: "string list" where
  "flying_script =
     [''flying, ocean , fear'', ''symbols'', ''psychology'', ''culture'', flying_synthesis]"

text \<open>An answer to the RAG prompt with four numbered alternatives.\<close>

definition four_alternatives :: string where
  "four_alternatives =
     join nl [''ALTERNATIVE INTERPRETATIONS:'', ''1. a'', ''2. b'', ''3. c'', ''4. d'']"

section \<open>Properties of the vector store\<close>

subsection \<open>Sorting and slicing\<close>

lemma set_sort_reverse: "set (sort_reverse f xs) = set xs"
  by (simp add: sort_reverse_def)

lemma sorted_sort_reverse: "sorted_wrt (\<ge>) (map f (sort_reverse f xs))"
proof -
  have "sorted (map f (sort_key f (rev xs)))"
    by (rule sorted_sort_key)
  then have "sorted_wrt (\<ge>) (rev (map f (sort_key f (rev xs))))"
    by (simp add: sorted_wrt_rev)
  then show ?thesis
    by (simp add: sort_reverse_def rev_map)
qed

text \<open>The sort is stable: the results with one and the same key keep their order.\<close>

lemma filter_sort_reverse:
  "filter (\<lambda>y. f y = k) (sort_reverse f xs) = filter (\<lambda>y. f y = k) xs"
proof -
  have "filter (\<lambda>y. f y = k) (sort_reverse f xs)
          = rev (filter (\<lambda>y. f y = k) (sort_key f (rev xs)))"
    by (simp add: sort_reverse_def rev_filter)
  also have "\<dots> = rev (filter (\<lambda>y. f y = k) (rev xs))"
    by (simp only: sort_key_stable)
  also have "\<dots> = filter (\<lambda>y. f y = k) xs"
    by (simp add: rev_filter)
  finally show ?thesis .
qed

lemma slice_to_prefix: "prefix (slice_to xs n) xs"
  by (simp add: slice_to_def take_is_prefix)

lemma final_score_boost:
  "final_score (boost r) = relevance_score (boost r) * (1 + get_weight (metadata (boost r)))"
  by (simp add: boost_def)

lemma hybrid_search_prefix:
  "prefix (hybrid_search coll query n_results categories)
     (sort_reverse final_score
        (map boost (similarity_search coll query (n_results * 2) (filter_dict_of categories))))"
  by (simp add: hybrid_search_def slice_to_prefix)

subsection \<open>Similarity\<close>

text \<open>
  C7, as the code has it: the relevance score of a search result is 1 minus the distance
  that the index reports, with no clamping; it lies in [0,1] exactly when the distance
  does.
\<close>

theorem similarity_is_one_minus_distance:
  "map relevance_score (similarity_search coll query n_results filter_dict)
     = map (\<lambda>row. 1 - row_distance row) (coll query n_results filter_dict)
   \<and> (\<forall>r \<in> set (similarity_search coll query n_results filter_dict).
        relevance_score r = 1 - distance r
        \<and> ((0 \<le> relevance_score r \<and> relevance_score r \<le> 1)
             \<longleftrightarrow> (0 \<le> distance r \<and> distance r \<le> 1)))"
  by (auto simp: similarity_search_def)

theorem similarity_is_one_minus_distance_witness:
  "near_hit \<in> set (similarity_search two_index ''flying'' 5 None)
   \<and> relevance_score near_hit = 1 - distance near_hit
   \<and> 0 \<le> relevance_score near_hit \<and> relevance_score near_hit \<le> 1"
proof -
  have m: "near_hit \<in> set (similarity_search two_index ''flying'' 5 None)"
    by (simp add: similarity_search_def two_index_def near_hit_def)
  have d: "0 \<le> distance near_hit \<and> distance near_hit \<le> 1"
    by (simp add: near_hit_def)
  from similarity_is_one_minus_distance [of two_index "''flying''" 5 None] m d
  show ?thesis by blast
qed

text \<open>
  C7 as stated fails: a chunk at distance 3/2 is reported with the similarity -1/2,
  below the interval.
\<close>

theorem similarity_below_zero:
  "map relevance_score (similarity_search far_index ''flying'' 5 None) = [- (1 / 2)]"
  by (simp add: similarity_search_def far_index_def)

subsection \<open>Re-ranking\<close>

text \<open>
  C1: every candidate that \<open>hybrid_search\<close> returns has the final score of its relevance
  score times 1 plus the weight of its metadata (0.1 when the metadata has no weight),
  and the returned list is in descending order of the final score.
\<close>

theorem hybrid_search_scored_and_sorted:
  "(\<forall>r \<in> set (hybrid_search coll query n_results categories).
      final_score r = relevance_score r * (1 + get_weight (metadata r)))
   \<and> sorted_wrt (\<ge>) (map final_score (hybrid_search coll query n_results categories))"
proof
  let ?cands =
    "map boost (similarity_search coll query (n_results * 2) (filter_dict_of categories))"
  have pre: "prefix (hybrid_search coll query n_results categories)
               (sort_reverse final_score ?cands)"
    by (rule hybrid_search_prefix)
  then have "set (hybrid_search coll query n_results categories) \<subseteq> set ?cands"
    using set_mono_prefix set_sort_reverse by fastforce
  then show "\<forall>r \<in> set (hybrid_search coll query n_results categories).
      final_score r = relevance_score r * (1 + get_weight (metadata r))"
    using final_score_boost by auto
  from pre obtain zs where
    "sort_reverse final_score ?cands = hybrid_search coll query n_results categories @ zs"
    by (auto simp: prefix_def)
  then have "sorted_wrt (\<ge>)
               (map final_score (hybrid_search coll query n_results categories @ zs))"
    using sorted_sort_reverse [of final_score ?cands] by simp
  then show "sorted_wrt (\<ge>) (map final_score (hybrid_search coll query n_results categories))"
    by (simp add: sorted_wrt_append)
qed

lemma hybrid_search_two_index:
  "hybrid_search two_index ''flying'' 5 None
     = [top_hit,
        \<lparr>doc_id = ''S_chunk_0'', content = ''flying dreams'',
         metadata = chunk_meta ''S'' (1 / 5), distance = 1 / 2, relevance_score = 1 / 2,
         final_score = 3 / 5\<rparr>]"
  by (simp add: hybrid_search_def similarity_search_def two_index_def boost_def
      sort_reverse_def slice_to_def get_weight_def chunk_meta_def top_hit_def)

theorem hybrid_search_scored_and_sorted_witness:
  "top_hit \<in> set (hybrid_search two_index ''flying'' 5 None)
   \<and> final_score top_hit = relevance_score top_hit * (1 + get_weight (metadata top_hit))
   \<and> sorted_wrt (\<ge>) (map final_score (hybrid_search two_index ''flying'' 5 None))"
proof -
  have m: "top_hit \<in> set (hybrid_search two_index ''flying'' 5 None)"
    by (simp add: hybrid_search_two_index)
  from hybrid_search_scored_and_sorted [of two_index "''flying''" 5 None] m
  show ?thesis by blast
qed

text \<open>
  C6, as the code has it: the sort has the final score as its only key and is stable,
  so the candidates of one and the same final score come out in the order in which the
  index returned them. Neither the similarity nor the source breaks a tie.
\<close>

theorem ties_keep_index_order:
  "prefix (filter (\<lambda>r. final_score r = k) (hybrid_search coll query n_results categories))
          (filter (\<lambda>r. final_score r = k)
             (map boost
                (similarity_search coll query (n_results * 2) (filter_dict_of categories))))"
proof -
  let ?cands =
    "map boost (similarity_search coll query (n_results * 2) (filter_dict_of categories))"
  have "prefix (hybrid_search coll query n_results categories)
          (sort_reverse final_score ?cands)"
    by (rule hybrid_search_prefix)
  then have "prefix
      (filter (\<lambda>r. final_score r = k) (hybrid_search coll query n_results categories))
      (filter (\<lambda>r. final_score r = k) (sort_reverse final_score ?cands))"
    by (rule filter_mono_prefix)
  then show ?thesis
    by (simp only: filter_sort_reverse)
qed

text \<open>
  C6 as stated fails: two candidates of equal final score and equal similarity, which
  the index returns with source T before source S, come out T first.
\<close>

theorem ties_not_broken_by_source:
  "map doc_id (hybrid_search tie_index ''flying'' 2 None) = [''T_chunk_0'', ''S_chunk_0'']
   \<and> map (source \<circ> metadata) (hybrid_search tie_index ''flying'' 2 None)
       = [Some ''T'', Some ''S'']
   \<and> map final_score (hybrid_search tie_index ''flying'' 2 None) = [3 / 4, 3 / 4]
   \<and> map relevance_score (hybrid_search tie_index ''flying'' 2 None) = [1 / 2, 1 / 2]"
  by (simp add: hybrid_search_def similarity_search_def tie_index_def boost_def
      sort_reverse_def slice_to_def get_weight_def chunk_meta_def)

subsection \<open>Context assembly\<close>

lemma length_join:
  "length (join sep ps) = sum_list (map length ps) + length sep * (length ps - 1)"
  by (induction sep ps rule: join.induct) simp_all

text \<open>The guard of the loop keeps the blocks, without the separators, within the budget.\<close>

lemma context_loop_budget:
  "int (sum_list (map length context_parts)) = total_chars \<Longrightarrow> total_chars \<le> max_chars \<Longrightarrow>
   int (sum_list (map length (context_loop max_chars idx results context_parts total_chars)))
     \<le> max_chars"
  by (induction max_chars idx results context_parts total_chars rule: context_loop.induct)
     (auto simp: Let_def)

text \<open>The loop adds the whole blocks of the first \<open>k\<close> results, for some \<open>k\<close>.\<close>

lemma context_loop_blocks:
  "\<exists>k \<le> length results.
     context_loop max_chars idx results context_parts total_chars
       = context_parts @ map2 chunk_text [idx ..< idx + k] (take k results)"
proof (induction max_chars idx results context_parts total_chars rule: context_loop.induct)
  case (1 max_chars idx context_parts total_chars)
  then show ?case by simp
next
  case (2 max_chars idx result results context_parts total_chars)
  show ?case
  proof (cases "total_chars + int (length (chunk_text idx result)) > max_chars")
    case True
    then have "context_loop max_chars idx (result # results) context_parts total_chars
                 = context_parts @ map2 chunk_text [idx ..< idx + 0] (take 0 (result # results))"
      by simp
    then show ?thesis by blast
  next
    case False
    with 2 obtain k where k: "k \<le> length results"
      "context_loop max_chars (idx + 1) results (context_parts @ [chunk_text idx result])
          (total_chars + int (length (chunk_text idx result)))
        = (context_parts @ [chunk_text idx result])
            @ map2 chunk_text [idx + 1 ..< idx + 1 + k] (take k results)"
      by (auto simp: Let_def)
    have "context_loop max_chars idx (result # results) context_parts total_chars
            = context_parts
                @ map2 chunk_text [idx ..< idx + Suc k] (take (Suc k) (result # results))"
      using False k(2) by (simp add: Let_def upt_rec [of idx])
    moreover have "Suc k \<le> length (result # results)"
      using k(1) by simp
    ultimately show ?thesis by blast
  qed
qed

text \<open>
  C2 fails on the code at two blocks of 52 characters under a budget of 26 tokens, 104
  characters: both blocks pass the guard, and the newline that joins them makes the
  context 105 characters long.
\<close>

theorem context_exceeds_budget:
  "int (length (fst (get_context_for_query tie_index ''x'' 26 5))) = 26 * 4 + 1"
  by (simp add: get_context_for_query_def hybrid_search_def similarity_search_def
      tie_index_def boost_def sort_reverse_def slice_to_def get_weight_def chunk_meta_def
      filter_dict_of_def chunk_text_def str_nat.simps)

text \<open>
  C3, as the code has it: the source list is the whole ranked list of
  \<open>hybrid_search\<close>, whichever blocks went into the context; the context is made of the
  blocks of the first \<open>k\<close> of them, for some \<open>k\<close>, and is empty when the first block is
  already over the budget.
\<close>

theorem context_sources_are_all_results:
  "snd (get_context_for_query coll query max_tokens n_results)
     = hybrid_search coll query n_results None
   \<and> (\<exists>k \<le> length (hybrid_search coll query n_results None).
        fst (get_context_for_query coll query max_tokens n_results)
          = join nl (map2 chunk_text [0 ..< k] (take k (hybrid_search coll query n_results None))))
   \<and> (\<forall>r rs. hybrid_search coll query n_results None = r # rs
          \<longrightarrow> int (length (chunk_text 0 r)) > max_tokens * 4
          \<longrightarrow> fst (get_context_for_query coll query max_tokens n_results) = [])"
proof (intro conjI allI impI)
  show "snd (get_context_for_query coll query max_tokens n_results)
          = hybrid_search coll query n_results None"
    by (simp add: get_context_for_query_def Let_def)
next
  obtain k where "k \<le> length (hybrid_search coll query n_results None)"
    "context_loop (max_tokens * 4) 0 (hybrid_search coll query n_results None) [] 0
       = [] @ map2 chunk_text [0 ..< 0 + k] (take k (hybrid_search coll query n_results None))"
    using context_loop_blocks by blast
  then show "\<exists>k \<le> length (hybrid_search coll query n_results None).
        fst (get_context_for_query coll query max_tokens n_results)
          = join nl (map2 chunk_text [0 ..< k] (take k (hybrid_search coll query n_results None)))"
    by (auto simp: get_context_for_query_def Let_def)
next
  fix r rs
  assume "hybrid_search coll query n_results None = r # rs"
    and "int (length (chunk_text 0 r)) > max_tokens * 4"
  then show "fst (get_context_for_query coll query max_tokens n_results) = []"
    by (simp add: get_context_for_query_def Let_def)
qed

lemma hybrid_search_long_index: "hybrid_search long_index ''x'' 5 None = [long_hit]"
  by (simp add: hybrid_search_def similarity_search_def long_index_def boost_def
      sort_reverse_def slice_to_def get_weight_def chunk_meta_def long_hit_def)

lemma long_hit_block: "length (chunk_text 0 long_hit) = 80"
  by (simp add: chunk_text_def long_hit_def chunk_meta_def str_nat.simps)

theorem context_sources_are_all_results_witness:
  "hybrid_search long_index ''x'' 5 None = [long_hit]
   \<and> int (length (chunk_text 0 long_hit)) > 12 * 4
   \<and> fst (get_context_for_query long_index ''x'' 12 5) = []
   \<and> snd (get_context_for_query long_index ''x'' 12 5) = [long_hit]"
proof -
  have b: "int (length (chunk_text 0 long_hit)) > 12 * 4"
    by (simp add: long_hit_block)
  from context_sources_are_all_results [of long_index "''x''" 12 5]
    hybrid_search_long_index b
  show ?thesis by simp
qed

text \<open>
  C3 as stated fails: under a budget of 12 tokens, 48 characters, the block of 80
  characters is left out and the context is empty, while the source list still holds
  the chunk.
\<close>

theorem sources_not_limited_to_context:
  "fst (get_context_for_query long_index ''x'' 12 5) = []
   \<and> map doc_id (snd (get_context_for_query long_index ''x'' 12 5)) = [''S_chunk_0'']"
  by (simp add: get_context_for_query_def hybrid_search_long_index long_hit_block)
     (simp add: long_hit_def)

section \<open>Properties of the response parser\<close>

lemma strip_Nil: "strip [] = []"
  by (simp add: strip_def)

text \<open>Stripping keeps a prefix that neither starts nor ends with white space.\<close>

lemma strip_keeps_prefix:
  assumes "p \<noteq> []" "\<not> is_space (hd p)" "\<not> is_space (last p)"
  shows "\<exists>r'. strip (p @ r) = p @ r'"
proof -
  from assms obtain c cs where p: "p = c # cs" "\<not> is_space c"
    by (cases p) auto
  then have front: "dropWhile is_space (p @ r) = p @ r"
    by simp
  have rear: "\<exists>q. dropWhile is_space (rev r @ rev p) = q @ rev p"
  proof (cases "\<forall>x \<in> set (rev r). is_space x")
    case True
    have "dropWhile is_space (rev p) = rev p"
      using assms by (cases "rev p") (auto simp: last_rev hd_rev)
    with True show ?thesis
      by (metis append_Nil dropWhile_append1 dropWhile_append2 dropWhile_append)
  next
    case False
    then show ?thesis
      by (metis dropWhile_append)
  qed
  then obtain q where "dropWhile is_space (rev r @ rev p) = q @ rev p" ..
  then have "strip (p @ r) = p @ rev q"
    by (simp add: strip_def front)
  then show ?thesis ..
qed

subsection \<open>A section whose header is missing\<close>

lemma get_section_add_text:
  "cur \<noteq> name \<Longrightarrow> get_section name (add_text cur t secs) = get_section name secs"
  by (cases cur; cases name) (simp_all add: get_section_def)

lemma parse_line_missing:
  assumes "header_of (upper (strip line)) \<noteq> Some name" and "cur \<noteq> Some name"
  shows "snd (parse_line (secs, cur) line) \<noteq> Some name
         \<and> get_section name (fst (parse_line (secs, cur) line)) = get_section name secs"
proof (cases "header_of (upper (strip line))")
  case (Some header)
  with assms show ?thesis by simp
next
  case None
  show ?thesis
  proof (cases cur)
    case hn: None
    with None show ?thesis by simp
  next
    case (Some c)
    with assms have neq: "c \<noteq> name" by simp
    show ?thesis
    proof (cases "c = Alternative_interpretations")
      case True
      with neq have "get_section name
                 (secs\<lparr>alternative_interpretations := alternative_interpretations secs @ [x]\<rparr>)
               = get_section name secs" for x
        by (cases name) (simp_all add: get_section_def)
      with None Some True neq show ?thesis
        by auto
    next
      case False
      with None Some neq show ?thesis
        by (simp add: get_section_add_text)
    qed
  qed
qed

lemma foldl_parse_line_missing:
  "\<forall>line \<in> set lines. header_of (upper (strip line)) \<noteq> Some name \<Longrightarrow> cur \<noteq> Some name \<Longrightarrow>
   get_section name (fst (foldl parse_line (secs, cur) lines)) = get_section name secs"
proof (induction lines arbitrary: secs cur)
  case Nil
  then show ?case by simp
next
  case (Cons line lines)
  obtain secs' cur' where step: "parse_line (secs, cur) line = (secs', cur')"
    by (cases "parse_line (secs, cur) line")
  from Cons.prems have "header_of (upper (strip line)) \<noteq> Some name"
    by simp
  with parse_line_missing [of line name cur secs] Cons.prems(2) step
  have "cur' \<noteq> Some name" and "get_section name secs' = get_section name secs"
    by simp_all
  moreover from Cons.prems have "\<forall>l \<in> set lines. header_of (upper (strip l)) \<noteq> Some name"
    by simp
  ultimately show ?case
    using Cons.IH [of cur' secs'] step by simp
qed

lemma get_section_clean_up:
  "get_section name (clean_up secs)
     = (case get_section name secs of Text t \<Rightarrow> Text (strip t) | Items xs \<Rightarrow> Items xs)"
  by (cases name) (simp_all add: get_section_def clean_up_def)

lemma get_section_parse:
  "get_section name (parse_llm_response response_text)
     = get_section name
         (clean_up (fst (foldl parse_line (initial_sections, None)
            (split (CHR 0x0A) response_text))))"
  by (cases name) (simp_all add: get_section_def parse_llm_response_def Let_def)

lemma strip_default_confidence: "strip ''Medium - 50%'' = ''Medium - 50%''"
  by (simp add: strip_def is_space_def)

subsection \<open>The confidence text always starts with its default\<close>

lemma parse_line_confidence_prefix:
  assumes "prefix p (confidence secs)"
  shows "prefix p (confidence (fst (parse_line (secs, cur) line)))"
proof -
  have "prefix p (confidence (add_text c t secs))" for c t
    using assms by (cases c) simp_all
  with assms show ?thesis
    by (simp split: option.splits)
qed

lemma foldl_parse_line_confidence_prefix:
  "prefix p (confidence secs) \<Longrightarrow>
   prefix p (confidence (fst (foldl parse_line (secs, cur) lines)))"
proof (induction lines arbitrary: secs cur)
  case Nil
  then show ?case by simp
next
  case (Cons line lines)
  obtain secs' cur' where step: "parse_line (secs, cur) line = (secs', cur')"
    by (cases "parse_line (secs, cur) line")
  with parse_line_confidence_prefix [OF Cons.prems, of cur line]
  have "prefix p (confidence secs')"
    by simp
  with Cons.IH [of secs' cur'] step show ?case
    by simp
qed

lemma true_div_50_100: "true_div 50 100 = Inr (1 / 2)"
  by (simp add: true_div_def)

lemma extract_confidence_score_default:
  "extract_confidence_score (''Medium - 50%'' @ r) = 1 / 2"
proof -
  have "contains ''%'' (''Medium - 50%'' @ r)"
    by simp
  moreover have "re_search_percent (''Medium - 50%'' @ r) = Some ''50''"
    by (simp add: is_digit_def)
  moreover have "int_of_digits ''50'' = 50"
    by (simp add: int_of_digits_def digit_value_def)
  ultimately show ?thesis
    by (simp add: extract_confidence_score_def true_div_50_100)
qed

text \<open>
  The confidence text that the score is read from starts with the initial text
  \<open>Medium - 50%\<close>, to which the loop only appends. The leftmost percentage is
  therefore always 50, whatever the response says.
\<close>

lemma rag_confidence_score_constant:
  "confidence_score (parse_llm_response response_text) = 1 / 2"
proof -
  let ?secs = "fst (foldl parse_line (initial_sections, None) (split (CHR 0x0A) response_text))"
  have "prefix ''Medium - 50%'' (confidence ?secs)"
    by (rule foldl_parse_line_confidence_prefix) (simp add: initial_sections_def)
  then obtain r where "confidence ?secs = ''Medium - 50%'' @ r"
    by (auto simp: prefix_def)
  moreover have "\<exists>r'. strip (''Medium - 50%'' @ r) = ''Medium - 50%'' @ r'"
    by (rule strip_keeps_prefix) (simp_all add: is_space_def)
  ultimately obtain r' where eq: "confidence (clean_up ?secs) = ''Medium - 50%'' @ r'"
    by (auto simp: clean_up_def)
  have "confidence_score (parse_llm_response response_text)
          = extract_confidence_score (confidence (clean_up ?secs))"
    by (simp add: parse_llm_response_def Let_def)
  also have "\<dots> = extract_confidence_score (''Medium - 50%'' @ r')"
    by (simp only: eq)
  also have "\<dots> = 1 / 2"
    by (rule extract_confidence_score_default)
  finally show ?thesis .
qed

text \<open>
  C9, as the code has it: the parser is a total function with no raising step left
  (the one \<open>try\<close> block catches what it raises). A section whose header occurs on no
  line keeps its initial value: the empty string, the empty list for the alternatives,
  and the text \<open>Medium - 50%\<close> for the confidence label. The confidence score is then
  the default 1/2.
\<close>

theorem parse_missing_section:
  assumes "\<forall>line \<in> set (split (CHR 0x0A) response_text).
             header_of (upper (strip line)) \<noteq> Some name"
  shows "get_section name (parse_llm_response response_text)
           = (case name of
                Confidence \<Rightarrow> Text ''Medium - 50%''
              | Alternative_interpretations \<Rightarrow> Items []
              | _ \<Rightarrow> Text [])
         \<and> confidence_score (parse_llm_response response_text) = 1 / 2"
proof
  let ?secs = "fst (foldl parse_line (initial_sections, None) (split (CHR 0x0A) response_text))"
  have "get_section name ?secs = get_section name initial_sections"
    using assms by (rule foldl_parse_line_missing) simp
  then have "get_section name (clean_up ?secs)
               = (case get_section name initial_sections of
                    Text t \<Rightarrow> Text (strip t) | Items xs \<Rightarrow> Items xs)"
    by (simp add: get_section_clean_up)
  also have "\<dots> = (case name of
                Confidence \<Rightarrow> Text ''Medium - 50%''
              | Alternative_interpretations \<Rightarrow> Items []
              | _ \<Rightarrow> Text [])"
    by (cases name)
       (simp_all add: get_section_def initial_sections_def strip_Nil strip_default_confidence)
  finally show "get_section name (parse_llm_response response_text)
           = (case name of
                Confidence \<Rightarrow> Text ''Medium - 50%''
              | Alternative_interpretations \<Rightarrow> Items []
              | _ \<Rightarrow> Text [])"
    by (simp add: get_section_parse)
  show "confidence_score (parse_llm_response response_text) = 1 / 2"
    by (rule rag_confidence_score_constant)
qed

lemma header_of_random_text:
  "header_of (upper (strip ''random text with no headers'')) = None"
  by code_simp

theorem parse_missing_section_witness:
  "split (CHR 0x0A) ''random text with no headers'' = [''random text with no headers'']
   \<and> header_of (upper (strip ''random text with no headers'')) \<noteq> Some Reasoning
   \<and> get_section Reasoning (parse_llm_response ''random text with no headers'') = Text []
   \<and> confidence_score (parse_llm_response ''random text with no headers'') = 1 / 2"
proof -
  have s: "split (CHR 0x0A) ''random text with no headers'' = [''random text with no headers'']"
    by (simp add: split_def)
  have h: "header_of (upper (strip ''random text with no headers'')) \<noteq> Some Reasoning"
    by (simp add: header_of_random_text)
  from s h parse_missing_section [of "''random text with no headers''" Reasoning]
  show ?thesis by simp
qed

text \<open>
  C9 as stated fails: on a text without headers the confidence section is not empty
  but holds its initial text.
\<close>

theorem confidence_section_default_text:
  "confidence (parse_llm_response ''random text with no headers'') = ''Medium - 50%''"
proof -
  have "confidence (parse_llm_response ''random text with no headers'')
          = confidence (clean_up (fst (foldl parse_line (initial_sections, None)
              (split (CHR 0x0A) ''random text with no headers''))))"
    by (simp add: parse_llm_response_def Let_def)
  also have "\<dots> = ''Medium - 50%''"
    by code_simp
  finally show ?thesis .
qed

section \<open>Properties of the agentic pipeline\<close>

subsection \<open>Symbol extraction\<close>

lemma split_from_not_Nil: "split_from sep cur s \<noteq> []"
  by (induction s arbitrary: cur) simp_all

lemma retrieve_research_agent_returns:
  "\<exists>next. retrieve_research_agent llm coll (l, state) = Some next"
  by (simp add: Let_def split: prod.splits)

text \<open>
  C5, as the code has it: the symbol list is the list of the comma-separated pieces of
  the response, stripped. It has one more entry than the response has commas, so it is
  never empty, and the empty response gives the list whose one entry is the empty
  string. The stage returns whenever the generation call does, and the retrieval stage
  after it returns too.
\<close>

theorem symbol_list_from_response:
  assumes "llm l (extract_symbols_messages state) = Some (symbols_text, l')"
  shows "\<exists>state'. extract_symbols_agent llm coll (l, state) = Some (l', state')
           \<and> st_dream_symbols state' = map strip (split (CHR '','') symbols_text)
           \<and> st_dream_symbols state' \<noteq> []
           \<and> (symbols_text = [] \<longrightarrow> st_dream_symbols state' = [[]])
           \<and> (\<exists>next. retrieve_research_agent llm coll (l', state') = Some next)"
proof -
  let ?symbols = "map strip (split (CHR '','') symbols_text)"
  let ?state' = "state\<lparr>st_dream_symbols := ?symbols,
                        st_current_step := ''symbol_extraction'',
                        st_messages := st_messages state
                          @ [''Extracted '' @ str_nat (length ?symbols) @ '' symbols'']\<rparr>"
  have run: "extract_symbols_agent llm coll (l, state) = Some (l', ?state')"
    using assms by (simp add: Let_def)
  have "?symbols \<noteq> []"
    by (simp add: split_def split_from_not_Nil)
  moreover have "symbols_text = [] \<longrightarrow> ?symbols = [[]]"
    by (simp add: split_def strip_Nil)
  moreover have "\<exists>next. retrieve_research_agent llm coll (l', ?state') = Some next"
    by (rule retrieve_research_agent_returns)
  ultimately show ?thesis
    using run by simp
qed

lemma strip_split_flying:
  "map strip (split (CHR '','') ''flying, ocean , fear'') = [''flying'', ''ocean'', ''fear'']"
  by code_simp

theorem symbol_list_from_response_witness:
  "scripted flying_script (extract_symbols_messages (initial_state ''I was flying'' None))
     = Some (''flying, ocean , fear'', [''symbols'', ''psychology'', ''culture'', flying_synthesis])
   \<and> (\<exists>state'. extract_symbols_agent scripted empty_index
                  (flying_script, initial_state ''I was flying'' None)
                = Some ([''symbols'', ''psychology'', ''culture'', flying_synthesis], state')
         \<and> st_dream_symbols state' = [''flying'', ''ocean'', ''fear''])"
proof -
  have call: "scripted flying_script (extract_symbols_messages (initial_state ''I was flying'' None))
     = Some (''flying, ocean , fear'', [''symbols'', ''psychology'', ''culture'', flying_synthesis])"
    by (simp add: flying_script_def)
  from symbol_list_from_response
         [where llm = scripted and l = flying_script and coll = empty_index, OF call]
       strip_split_flying call
  show ?thesis by auto
qed

text \<open>
  C5 as stated fails: on the empty response the symbol list is not empty, it holds the
  empty string.
\<close>

theorem empty_response_gives_one_symbol:
  "map_option (st_dream_symbols \<circ> snd)
     (extract_symbols_agent scripted empty_index ([''''], initial_state ''I was flying'' None))
   = Some ['''']"
  by (simp add: Let_def split_def strip_Nil)

subsection \<open>Synthesis\<close>

lemma synthesis_agent_Some:
  assumes "synthesis_agent llm coll (l, state) = Some (l', state')"
  shows "\<exists>synthesis. llm l (synthesis_messages state) = Some (synthesis, l')
           \<and> state' = state\<lparr>st_final_interpretation := synthesis,
                             st_confidence_score := synthesis_confidence synthesis,
                             st_alternative_interpretations := synthesis_alternatives synthesis,
                             st_reasoning := synthesis_reasoning synthesis,
                             st_current_step := ''complete'',
                             st_messages := st_messages state @ [''Synthesis complete'']\<rparr>"
  using assms by (auto split: option.splits)

text \<open>
  C4, as the code has it by design, for the synthesis stage: no percentage is read.
  The confidence is 0.85 when the synthesis text contains both \<open>High\<close> and \<open>%\<close>,
  otherwise 0.4 when it contains both \<open>Low\<close> and \<open>%\<close>, otherwise the default 0.7.
\<close>

theorem synthesis_confidence_by_keywords:
  assumes "synthesis_agent llm coll (l, state) = Some (l', state')"
  shows "\<exists>synthesis. llm l (synthesis_messages state) = Some (synthesis, l')
           \<and> st_confidence_score state'
               = (if contains ''High'' synthesis \<and> contains ''%'' synthesis then 85 / 100
                  else if contains ''Low'' synthesis \<and> contains ''%'' synthesis then 4 / 10
                  else 7 / 10)"
proof -
  from synthesis_agent_Some [OF assms] obtain synthesis where
    "llm l (synthesis_messages state) = Some (synthesis, l')"
    "st_confidence_score state' = synthesis_confidence synthesis"
    by auto
  then show ?thesis
    by (auto simp: synthesis_confidence_def)
qed

lemma contains_low_text:
  "\<not> contains ''High'' ''CONFIDENCE: Low - 30%'' \<and> contains ''Low'' ''CONFIDENCE: Low - 30%''
   \<and> contains ''%'' ''CONFIDENCE: Low - 30%''"
  by code_simp

theorem synthesis_confidence_by_keywords_witness:
  "\<exists>state'. synthesis_agent scripted empty_index
               ([''CONFIDENCE: Low - 30%''], initial_state ''I was flying'' None)
             = Some ([], state')
     \<and> st_confidence_score state' = 4 / 10"
proof -
  obtain state' where run: "synthesis_agent scripted empty_index
               ([''CONFIDENCE: Low - 30%''], initial_state ''I was flying'' None)
             = Some ([], state')"
    by simp
  from synthesis_confidence_by_keywords [OF run] obtain synthesis where
    "scripted [''CONFIDENCE: Low - 30%''] (synthesis_messages (initial_state ''I was flying'' None))
       = Some (synthesis, [])"
    "st_confidence_score state'
               = (if contains ''High'' synthesis \<and> contains ''%'' synthesis then 85 / 100
                  else if contains ''Low'' synthesis \<and> contains ''%'' synthesis then 4 / 10
                  else 7 / 10)"
    by blast
  then have "st_confidence_score state' = 4 / 10"
    using contains_low_text by auto
  with run show ?thesis by blast
qed

lemma contains_high_text:
  "contains ''High'' ''CONFIDENCE: High - 92%'' \<and> contains ''%'' ''CONFIDENCE: High - 92%''"
  by code_simp

text \<open>
  C4 as stated fails: the synthesis text gives 92% and the stage returns 0.85, the
  value for the keyword.
\<close>

theorem synthesis_ignores_percentage:
  "map_option (st_confidence_score \<circ> snd)
     (synthesis_agent scripted empty_index
        ([''CONFIDENCE: High - 92%''], initial_state ''I was flying'' None))
   = Some (85 / 100)"
  using contains_high_text by (simp add: synthesis_confidence_def)

subsection \<open>The whole run\<close>

lemma run_nodes_append:
  "run_nodes (ns @ ms) llm coll x
     = (case run_nodes ns llm coll x of None \<Rightarrow> None | Some y \<Rightarrow> run_nodes ms llm coll y)"
  by (induction ns arbitrary: x) (simp_all split: option.splits)

lemma workflow_nodes_split: "workflow_nodes = analysis_nodes @ [synthesis_agent]"
  by (simp add: workflow_nodes_def analysis_nodes_def)

text \<open>A run that returns went through the five analysis nodes and then the synthesis.\<close>

lemma workflow_invoke_Some:
  assumes "workflow_invoke llm coll x = Some (l', final_state)"
  shows "\<exists>l5 state5 synthesis.
           run_nodes analysis_nodes llm coll x = Some (l5, state5)
           \<and> llm l5 (synthesis_messages state5) = Some (synthesis, l')
           \<and> st_final_interpretation final_state = synthesis
           \<and> st_alternative_interpretations final_state = synthesis_alternatives synthesis"
proof -
  from assms obtain y where y: "run_nodes analysis_nodes llm coll x = Some y"
    "synthesis_agent llm coll y = Some (l', final_state)"
    by (auto simp: workflow_invoke_def workflow_nodes_split run_nodes_append
        split: option.splits)
  obtain l5 state5 where "y = (l5, state5)"
    by (cases y)
  with y synthesis_agent_Some [of llm coll l5 state5 l' final_state] show ?thesis
    by auto
qed

lemma agentic_interpret_dream_Some:
  assumes "agentic_interpret_dream llm coll l dream_text user_context = Some (response, l')"
  shows "\<exists>final_state.
           workflow_invoke llm coll (l, initial_state dream_text user_context)
             = Some (l', final_state)
           \<and> agentic_interpretation response = st_final_interpretation final_state
           \<and> agentic_alternative_interpretations response
               = st_alternative_interpretations final_state"
  using assms by (auto simp: agentic_interpret_dream_def split: option.splits)

text \<open>
  C10: the interpretation of a successful agentic run is the text that the generation
  call of the synthesis stage returned, as it is.
\<close>

theorem agentic_interpretation_is_synthesis_text:
  assumes "agentic_interpret_dream llm coll l dream_text user_context = Some (response, l')"
  shows "\<exists>l5 state5.
           run_nodes analysis_nodes llm coll (l, initial_state dream_text user_context)
             = Some (l5, state5)
           \<and> llm l5 (synthesis_messages state5) = Some (agentic_interpretation response, l')"
proof -
  from agentic_interpret_dream_Some [OF assms] obtain final_state where
    "workflow_invoke llm coll (l, initial_state dream_text user_context) = Some (l', final_state)"
    "agentic_interpretation response = st_final_interpretation final_state"
    by blast
  with workflow_invoke_Some [of llm coll "(l, initial_state dream_text user_context)" l' final_state]
  show ?thesis by auto
qed

lemma flying_run_returns:
  "map_option snd (agentic_interpret_dream scripted empty_index flying_script ''I was flying'' None)
     = Some []"
  by code_simp

lemma flying_analysis_run:
  "map_option fst
     (run_nodes analysis_nodes scripted empty_index
        (flying_script, initial_state ''I was flying'' None))
   = Some [flying_synthesis]"
  by code_simp

theorem agentic_interpretation_is_synthesis_text_witness:
  "\<exists>response. agentic_interpret_dream scripted empty_index flying_script ''I was flying'' None
                 = Some (response, [])
     \<and> agentic_interpretation response = flying_synthesis"
proof -
  from flying_run_returns obtain response where run:
    "agentic_interpret_dream scripted empty_index flying_script ''I was flying'' None
       = Some (response, [])"
    by auto
  from agentic_interpretation_is_synthesis_text [OF run] obtain l5 state5 where
    "run_nodes analysis_nodes scripted empty_index
       (flying_script, initial_state ''I was flying'' None) = Some (l5, state5)"
    "scripted l5 (synthesis_messages state5) = Some (agentic_interpretation response, [])"
    by blast
  with flying_analysis_run have "agentic_interpretation response = flying_synthesis"
    by auto
  with run show ?thesis by blast
qed

subsection \<open>The number of alternatives\<close>

text \<open>
  C8, as the code has it: under the agentic strategy the list of alternatives has at
  most 3 entries, whatever the responses are.
\<close>

theorem agentic_at_most_three_alternatives:
  assumes "agentic_interpret_dream llm coll l dream_text user_context = Some (response, l')"
  shows "length (agentic_alternative_interpretations response) \<le> 3"
proof -
  from agentic_interpret_dream_Some [OF assms] obtain final_state where
    "workflow_invoke llm coll (l, initial_state dream_text user_context) = Some (l', final_state)"
    "agentic_alternative_interpretations response = st_alternative_interpretations final_state"
    by blast
  with workflow_invoke_Some [of llm coll "(l, initial_state dream_text user_context)" l' final_state]
  obtain synthesis where
    "agentic_alternative_interpretations response = synthesis_alternatives synthesis"
    by auto
  then show ?thesis
    by (simp add: synthesis_alternatives_def Let_def)
qed

lemma flying_alternatives:
  "map_option (agentic_alternative_interpretations \<circ> fst)
     (agentic_interpret_dream scripted empty_index flying_script ''I was flying'' None)
   = Some [''a'', ''b'', ''c'']"
  by code_simp

theorem agentic_at_most_three_alternatives_witness:
  "\<exists>response. agentic_interpret_dream scripted empty_index flying_script ''I was flying'' None
                 = Some (response, [])
     \<and> agentic_alternative_interpretations response = [''a'', ''b'', ''c'']
     \<and> length (agentic_alternative_interpretations response) \<le> 3"
proof -
  from flying_run_returns obtain response where run:
    "agentic_interpret_dream scripted empty_index flying_script ''I was flying'' None
       = Some (response, [])"
    by auto
  with flying_alternatives
  have "agentic_alternative_interpretations response = [''a'', ''b'', ''c'']"
    by simp
  with run agentic_at_most_three_alternatives [OF run] show ?thesis
    by blast
qed

lemma rag_alternatives_of_response:
  assumes "client l (rag_messages provider
             (build_dream_interpretation_prompt dream_text
                (fst (get_context_for_query coll dream_text 3000 n_sources)) user_context))
           = Some (response_text, l')"
  shows "map_option (rag_alternative_interpretations \<circ> fst)
           (rag_interpret_dream client provider coll l dream_text user_context n_sources)
         = Some (alternative_interpretations
                   (clean_up (fst (foldl parse_line (initial_sections, None)
                      (split (CHR 0x0A) response_text)))))"
proof (cases "get_context_for_query coll dream_text 3000 n_sources")
  case (Pair ctx source_docs)
  with assms show ?thesis
    by (simp add: rag_interpret_dream_def Let_def parse_llm_response_def)
qed

lemma four_alternatives_parsed:
  "alternative_interpretations
     (clean_up (fst (foldl parse_line (initial_sections, None)
        (split (CHR 0x0A) four_alternatives))))
   = [''a'', ''b'', ''c'', ''d'']"
  by code_simp

text \<open>
  C8 as stated fails under the RAG strategy: the parser keeps every line of the
  alternatives section that starts with \<open>1.\<close> to \<open>5.\<close>, and the result carries all four
  of this response.
\<close>

theorem rag_four_alternatives:
  "map_option (rag_alternative_interpretations \<circ> fst)
     (rag_interpret_dream scripted Anthropic empty_index [four_alternatives]
        ''I was flying'' None 5)
   = Some [''a'', ''b'', ''c'', ''d'']"
  by (simp add: rag_alternatives_of_response four_alternatives_parsed)


end
